theory Spec2Isabelle
  imports Complex_Main
begin

section \<open>Numbers and exceptions\<close>

text \<open>
  The program computes with Python \<open>float\<close> and \<open>int\<close>. A \<open>float\<close> is embedded as a
  \<^typ>\<open>real\<close>: every arithmetic operation is exact, so rounding, overflow to infinity and
  underflow of IEEE doubles are outside this development. A Python \<open>int\<close> is an
  \<^typ>\<open>int\<close>. An exception is a value of \<open>py_error\<close>, and an operation that may raise
  returns \<open>py_error + 'a\<close>, with \<open>Inl\<close> the exception.
\<close>

datatype py_error = ZeroDivisionError | ValueError

definition py_bind :: "py_error + 'a \<Rightarrow> ('a \<Rightarrow> py_error + 'b) \<Rightarrow> py_error + 'b" where
  "py_bind m f = (case m of Inl e \<Rightarrow> Inl e | Inr v \<Rightarrow> f v)"

text \<open>\<open>a / b\<close> on floats raises \<open>ZeroDivisionError\<close> when \<open>b\<close> is zero.\<close>

definition py_truediv :: "real \<Rightarrow> real \<Rightarrow> py_error + real" where
  "py_truediv a b = (if b = 0 then Inl ZeroDivisionError else Inr (a / b))"

text \<open>
  \<open>b ** e\<close> for a float \<open>b\<close> and an int \<open>e\<close>: zero to a negative power raises
  \<open>ZeroDivisionError\<close>; \<open>0.0 ** 0\<close> is \<open>1.0\<close>.
\<close>

definition py_pow :: "real \<Rightarrow> int \<Rightarrow> py_error + real" where
  "py_pow b e = (if b = 0 \<and> e < 0 then Inl ZeroDivisionError else Inr (b powi e))"

text \<open>
  \<open>try: body except ZeroDivisionError: return d\<close>: only that exception is caught, any
  other one propagates.
\<close>

definition except_ZeroDivisionError :: "py_error + 'a \<Rightarrow> 'a \<Rightarrow> py_error + 'a" where
  "except_ZeroDivisionError body d =
     (case body of
        Inl ZeroDivisionError \<Rightarrow> Inr d
      | Inl e \<Rightarrow> Inl e
      | Inr v \<Rightarrow> Inr v)"

text \<open>\<open>try: body except Exception: return d\<close>: every exception is caught.\<close>

definition except_Exception :: "py_error + 'a \<Rightarrow> 'a \<Rightarrow> py_error + 'a" where
  "except_Exception body d = (case body of Inl e \<Rightarrow> Inr d | Inr v \<Rightarrow> Inr v)"

section \<open>The two formulas (kpr2.py, lines 247 to 268)\<close>

text \<open>
  \<^verbatim>\<open>
  def monthly_payment(principal, annual_rate_pct, years):
      if principal <= 0 or years <= 0:
          return 0.0
      r = (annual_rate_pct / 100.0) / 12.0
      n = years * 12
      if r == 0:
          return principal / n
      try:
          return principal * r / (1 - (1 + r) ** (-n))
      except ZeroDivisionError:
          return 0.0
  \<close>
\<close>

definition monthly_payment :: "real \<Rightarrow> real \<Rightarrow> int \<Rightarrow> py_error + real" where
  "monthly_payment princ annual_rate_pct years =
     (if princ \<le> 0 \<or> years \<le> 0 then Inr 0
      else
        let r = (annual_rate_pct / 100) / 12;
            n = years * 12
        in if r = 0 then py_truediv princ (of_int n)
           else except_ZeroDivisionError
                  (py_bind (py_pow (1 + r) (- n))
                     (\<lambda>pw. py_truediv (princ * r) (1 - pw)))
                  0)"

text \<open>
  \<^verbatim>\<open>
  def max_principal_from_dsr(net_income, expenses, dsr, annual_rate_pct, years):
      capacity = max(0.0, (net_income - expenses) * dsr)
      r = (annual_rate_pct / 100.0) / 12.0
      n = years * 12
      if r == 0:
          return capacity * n
      try:
          return capacity * (1 - (1 + r) ** (-n)) / r
      except ZeroDivisionError:
          return 0.0
  \<close>
\<close>

definition max_principal_from_dsr ::
  "real \<Rightarrow> real \<Rightarrow> real \<Rightarrow> real \<Rightarrow> int \<Rightarrow> py_error + real" where
  "max_principal_from_dsr net_income expenses dsr annual_rate_pct years =
     (let capacity = max 0 ((net_income - expenses) * dsr);
          r = (annual_rate_pct / 100) / 12;
          n = years * 12
      in if r = 0 then Inr (capacity * of_int n)
         else except_ZeroDivisionError
                (py_bind (py_pow (1 + r) (- n))
                   (\<lambda>pw. py_truediv (capacity * (1 - pw)) r))
                0)"

section \<open>The affordability snapshot (kpr2.py, lines 323 to 353)\<close>

text \<open>
  The source computes the snapshot inline, from values read out of the session; the
  specification calls this computation \<open>evaluate\<close>. The inputs are the borrower's
  profile and the policy thresholds, the output is the record of the derived values,
  each field under the name of the source's variable:
  \<^verbatim>\<open>
  need_loan = max(0.0, harga - dp)
  ltv = need_loan / harga if harga > 0 else 0.0
  pay_est = monthly_payment(need_loan, bunga, tenor)
  max_principal_dsr = max_principal_from_dsr(gaji_bersih, pengeluaran, max_dsr, bunga, tenor)
  dsr_used = (pay_est / max(1.0, gaji_bersih - pengeluaran)) if (gaji_bersih - pengeluaran) > 0 else 0.0
  dsr_flag = dsr_used <= max_dsr if (gaji_bersih - pengeluaran) > 0 else False
  ltv_flag = ltv <= max_ltv if harga > 0 else True
  \<close>
\<close>

record borrower =
  gaji_bersih :: real
  pengeluaran :: real
  harga :: real
  dp :: real
  tenor :: int
  bunga :: real

record policy =
  max_dsr :: real
  max_ltv :: real

record snapshot =
  need_loan :: real
  ltv :: real
  pay_est :: real
  max_principal_dsr :: real
  dsr_used :: real
  dsr_flag :: bool
  ltv_flag :: bool

definition evaluate :: "borrower \<Rightarrow> policy \<Rightarrow> py_error + snapshot" where
  "evaluate b p =
     (let loan = max 0 (harga b - dp b);
          disposable = gaji_bersih b - pengeluaran b
      in py_bind (if harga b > 0 then py_truediv loan (harga b) else Inr 0) (\<lambda>v_ltv.
         py_bind (monthly_payment loan (bunga b) (tenor b)) (\<lambda>v_pay.
         py_bind (max_principal_from_dsr (gaji_bersih b) (pengeluaran b) (max_dsr p)
                    (bunga b) (tenor b)) (\<lambda>v_max.
         py_bind (if disposable > 0 then py_truediv v_pay (max 1 disposable) else Inr 0)
                 (\<lambda>v_dsr.
         Inr \<lparr> need_loan = loan,
               ltv = v_ltv,
               pay_est = v_pay,
               max_principal_dsr = v_max,
               dsr_used = v_dsr,
               dsr_flag = (if disposable > 0 then v_dsr \<le> max_dsr p else False),
               ltv_flag = (if harga b > 0 then v_ltv \<le> max_ltv p else True) \<rparr>)))))"

section \<open>Text and the built-in conversions\<close>

text \<open>
  A Python \<open>str\<close> is embedded as a \<^typ>\<open>string\<close>, each \<^typ>\<open>char\<close> standing for the code
  point of that number, so the development covers text over the code points below 256;
  the digits and spaces of Unicode beyond them are outside it. The value of a numeral
  is its exact decimal value. Besides the finite values, \<open>float\<close> has the values that
  the tokens \<open>inf\<close>, \<open>infinity\<close> and \<open>nan\<close> denote.
\<close>

datatype pyfloat = Finite real | PosInf | NegInf | NaN

text \<open>
  \<open>str.strip()\<close> removes the characters for which \<open>str.isspace\<close> holds from both ends:
  tab, line feed, vertical tab, form feed, carriage return, the four separators
  \<open>0x1C\<close> to \<open>0x1F\<close>, the space, next line \<open>0x85\<close> and the no-break space \<open>0xA0\<close>.
\<close>

definition str_isspace :: "char \<Rightarrow> bool" where
  "str_isspace c \<longleftrightarrow>
     c \<in> set [CHR 0x09, CHR 0x0A, CHR 0x0B, CHR 0x0C, CHR 0x0D,
               CHR 0x1C, CHR 0x1D, CHR 0x1E, CHR 0x1F, CHR '' '', CHR 0x85, CHR 0xA0]"

definition strip :: "string \<Rightarrow> string" where
  "strip s = rev (dropWhile str_isspace (rev (dropWhile str_isspace s)))"

text \<open>\<open>s.replace(old, new)\<close> for a pattern \<open>old\<close> of one character.\<close>

definition replace :: "char \<Rightarrow> string \<Rightarrow> string \<Rightarrow> string" where
  "replace old new s = concat (map (\<lambda>c. if c = old then new else [c]) s)"

definition is_digit :: "char \<Rightarrow> bool" where
  "is_digit c \<longleftrightarrow> c \<in> set ''0123456789''"

definition digit_val :: "char \<Rightarrow> nat" where
  "digit_val c = of_char c - 48"

definition digits_val :: "string \<Rightarrow> nat" where
  "digits_val ds = foldl (\<lambda>acc c. 10 * acc + digit_val c) 0 ds"

text \<open>
  \<open>int(s)\<close> and \<open>float(s)\<close> skip white space at both ends themselves, and theirs is a
  smaller set than that of \<open>strip\<close>: the separators \<open>0x1C\<close> to \<open>0x1F\<close> are not in it.
\<close>

definition num_isspace :: "char \<Rightarrow> bool" where
  "num_isspace c \<longleftrightarrow>
     c \<in> set [CHR 0x09, CHR 0x0A, CHR 0x0B, CHR 0x0C, CHR 0x0D, CHR '' '', CHR 0x85, CHR 0xA0]"

definition num_strip :: "string \<Rightarrow> string" where
  "num_strip s = rev (dropWhile num_isspace (rev (dropWhile num_isspace s)))"

text \<open>An optional sign: the flag says whether it was a minus.\<close>

definition split_sign :: "string \<Rightarrow> bool \<times> string" where
  "split_sign s =
     (case s of
        [] \<Rightarrow> (False, [])
      | c # cs \<Rightarrow> if c = CHR ''-'' then (True, cs)
                  else if c = CHR ''+'' then (False, cs)
                  else (False, s))"

text \<open>
  The digits of \<open>int(s)\<close>: a digit first, then digits with single underscores between
  them; \<open>prev\<close> is the character read last, \<open>acc\<close> the value read so far.
\<close>

fun scan_digits :: "char \<Rightarrow> nat \<Rightarrow> string \<Rightarrow> nat option" where
  "scan_digits prev acc [] = (if prev = CHR ''_'' then None else Some acc)"
| "scan_digits prev acc (c # cs) =
     (if c = CHR ''_'' then (if prev = CHR ''_'' then None else scan_digits c acc cs)
      else if is_digit c then scan_digits c (10 * acc + digit_val c) cs
      else None)"

definition int_literal :: "string \<Rightarrow> nat option" where
  "int_literal s =
     (case s of
        [] \<Rightarrow> None
      | c # cs \<Rightarrow> if is_digit c then scan_digits c (digit_val c) cs else None)"

definition py_int :: "string \<Rightarrow> py_error + int" where
  "py_int s =
     (let (neg, body) = split_sign (num_strip s)
      in case int_literal body of
           None \<Rightarrow> Inl ValueError
         | Some n \<Rightarrow> Inr (if neg then - int n else int n))"

text \<open>
  \<open>float(s)\<close>: an underscore must stand between two digits; the underscores are then
  dropped. After the optional sign comes \<open>inf\<close>, \<open>infinity\<close> or \<open>nan\<close> in any case of
  the letters, or a number: digits with an optional point, at least one digit before
  or after it, and an optional exponent.
\<close>

fun underscores_ok :: "char \<Rightarrow> string \<Rightarrow> bool" where
  "underscores_ok prev [] = (prev \<noteq> CHR ''_'')"
| "underscores_ok prev (c # cs) =
     ((if c = CHR ''_'' then is_digit prev else (prev = CHR ''_'' \<longrightarrow> is_digit c))
      \<and> underscores_ok c cs)"

definition lower :: "char \<Rightarrow> char" where
  "lower c =
     (case map_of (zip ''ABCDEFGHIJKLMNOPQRSTUVWXYZ'' ''abcdefghijklmnopqrstuvwxyz'') c of
        None \<Rightarrow> c
      | Some d \<Rightarrow> d)"

definition float_number :: "string \<Rightarrow> real option" where
  "float_number s =
     (let ip = takeWhile is_digit s;
          r1 = dropWhile is_digit s;
          (fp, r2) = (case r1 of
                        [] \<Rightarrow> ([], [])
                      | c # cs \<Rightarrow> if c = CHR ''.''
                                  then (takeWhile is_digit cs, dropWhile is_digit cs)
                                  else ([], r1))
      in if ip = [] \<and> fp = [] then None
         else
           let m = real (digits_val (ip @ fp)) / 10 ^ length fp
           in case r2 of
                [] \<Rightarrow> Some m
              | c # cs \<Rightarrow>
                  if c = CHR ''e'' \<or> c = CHR ''E''
                  then (let (eneg, ds) = split_sign cs
                        in if ds \<noteq> [] \<and> list_all is_digit ds
                           then Some (m * 10 powi (if eneg then - int (digits_val ds)
                                                    else int (digits_val ds)))
                           else None)
                  else None)"

definition py_float :: "string \<Rightarrow> py_error + pyfloat" where
  "py_float s =
     (let t = num_strip s
      in if \<not> underscores_ok (CHR 0x00) t then Inl ValueError
         else
           let (neg, body) = split_sign (filter (\<lambda>c. c \<noteq> CHR ''_'') t);
               word = map lower body
           in if word = ''inf'' \<or> word = ''infinity'' then Inr (if neg then NegInf else PosInf)
              else if word = ''nan'' then Inr NaN
              else case float_number body of
                     None \<Rightarrow> Inl ValueError
                   | Some x \<Rightarrow> Inr (Finite (if neg then - x else x)))"

section \<open>The two parsers (kpr2.py, lines 96 to 140)\<close>

text \<open>
  \<^verbatim>\<open>
  def parse_money(text: str) -> float:
      if text is None:
          return 0.0
      s = str(text).strip()
      if s == "":
          return 0.0
      s = s.replace(" ", "")
      s = s.replace(",", "").replace(".", "")
      if s == "" or s == "-":
          return 0.0
      try:
          return float(int(s))
      except Exception:
          return 0.0
  \<close>
  The conversion of the int to a float is exact here.
\<close>

definition parse_money :: "string option \<Rightarrow> py_error + pyfloat" where
  "parse_money text =
     (case text of
        None \<Rightarrow> Inr (Finite 0)
      | Some t \<Rightarrow>
          (let s = strip t
           in if s = [] then Inr (Finite 0)
              else
                let s = replace (CHR '' '') [] s;
                    s = replace (CHR ''.'') [] (replace (CHR '','') [] s)
                in if s = [] \<or> s = ''-'' then Inr (Finite 0)
                   else except_Exception
                          (py_bind (py_int s) (\<lambda>i. Inr (Finite (of_int i))))
                          (Finite 0)))"

text \<open>
  \<^verbatim>\<open>
  def parse_decimal(text: str) -> float:
      if text is None:
          return 0.0
      s = str(text).strip()
      if s == "":
          return 0.0
      s = s.replace(" ", "")
      if s.count(",") == 1 and s.count(".") == 0:
          s = s.replace(",", ".")
      else:
          s = s.replace(",", "")
      try:
          return float(s)
      except Exception:
          return 0.0
  \<close>
\<close>

definition parse_decimal :: "string option \<Rightarrow> py_error + pyfloat" where
  "parse_decimal text =
     (case text of
        None \<Rightarrow> Inr (Finite 0)
      | Some t \<Rightarrow>
          (let s = strip t
           in if s = [] then Inr (Finite 0)
              else
                let s = replace (CHR '' '') [] s;
                    s = (if count_list s (CHR '','') = 1 \<and> count_list s (CHR ''.'') = 0
                         then replace (CHR '','') ''.'' s
                         else replace (CHR '','') [] s)
                in except_Exception (py_float s) (Finite 0)))"

section \<open>Facts about the two formulas\<close>

lemma monthly_payment_returns: "\<exists>v. monthly_payment P a y = Inr v"
  by (simp add: monthly_payment_def Let_def py_truediv_def py_pow_def py_bind_def
      except_ZeroDivisionError_def)

lemma max_principal_returns: "\<exists>v. max_principal_from_dsr ni ex d a y = Inr v"
  by (simp add: max_principal_from_dsr_def Let_def py_truediv_def py_pow_def py_bind_def
      except_ZeroDivisionError_def)

lemma monthly_payment_zero: "P \<le> 0 \<or> y \<le> 0 \<Longrightarrow> monthly_payment P a y = Inr 0"
  by (auto simp add: monthly_payment_def)















text \<open>
  C5. In the degenerate case of a rate \<open>r \<noteq> 0\<close> at which the annuity formula divides
  by zero (\<open>1 + r = 0\<close> with a positive number of months, so that the negative power is
  a division by zero, or \<open>1 - (1 + r)^(-n) = 0\<close>), neither formula raises:
  \<open>monthly_payment\<close> and \<open>max_principal_from_dsr\<close> both return \<open>0\<close>. The guarded
  expression of \<open>monthly_payment\<close> does raise \<open>ZeroDivisionError\<close> there, and the handler
  turns it into the \<open>0\<close>. (The rate \<open>r = 0\<close> never reaches a division by \<open>r\<close>: both
  functions return from the zero-rate branch first.)
\<close>

theorem zero_divisor_guard:
  "let r = annual_rate_pct / 100 / 12; n = years * 12 in
     r \<noteq> 0 \<and> ((1 + r = 0 \<and> 0 < n) \<or> 1 - (1 + r) powi (- n) = 0) \<longrightarrow>
       monthly_payment P annual_rate_pct years = Inr 0 \<and>
       max_principal_from_dsr net_income expenses dsr annual_rate_pct years = Inr 0 \<and>
       py_bind (py_pow (1 + r) (- n)) (\<lambda>pw. py_truediv (P * r) (1 - pw)) =
         Inl ZeroDivisionError"
proof -
  have 1: "monthly_payment P annual_rate_pct years = Inr 0"
    if "annual_rate_pct / 100 / 12 \<noteq> 0"
       "(1 + annual_rate_pct / 100 / 12 = 0 \<and> 0 < years * 12) \<or>
        1 - (1 + annual_rate_pct / 100 / 12) powi (- (years * 12)) = 0"
    using that
    by (auto simp add: monthly_payment_def Let_def py_truediv_def py_pow_def py_bind_def
        except_ZeroDivisionError_def)
  have 2: "max_principal_from_dsr net_income expenses dsr annual_rate_pct years = Inr 0"
    if "annual_rate_pct / 100 / 12 \<noteq> 0"
       "(1 + annual_rate_pct / 100 / 12 = 0 \<and> 0 < years * 12) \<or>
        1 - (1 + annual_rate_pct / 100 / 12) powi (- (years * 12)) = 0"
    using that
    by (auto simp add: max_principal_from_dsr_def Let_def py_truediv_def py_pow_def py_bind_def
        except_ZeroDivisionError_def)
  have 3: "py_bind (py_pow (1 + annual_rate_pct / 100 / 12) (- (years * 12)))
             (\<lambda>pw. py_truediv (P * (annual_rate_pct / 100 / 12)) (1 - pw)) =
           Inl ZeroDivisionError"
    if "(1 + annual_rate_pct / 100 / 12 = 0 \<and> 0 < years * 12) \<or>
        1 - (1 + annual_rate_pct / 100 / 12) powi (- (years * 12)) = 0"
    using that
    by (auto simp add: py_truediv_def py_pow_def py_bind_def)
  show ?thesis
    unfolding Let_def using 1 2 3 by blast
qed

theorem zero_divisor_guard_witness:
  "monthly_payment 1000 (- 1200) 1 = Inr 0 \<and>
   max_principal_from_dsr 8500000 3000000 (6 / 10) (- 1200) 1 = Inr 0 \<and>
   monthly_payment 1000 (- 2400) 1 = Inr 0 \<and>
   max_principal_from_dsr 8500000 3000000 (6 / 10) (- 2400) 1 = Inr 0"
  using zero_divisor_guard [where P = 1000 and annual_rate_pct = "- 1200" and years = 1
        and net_income = 8500000 and expenses = 3000000 and dsr = "6 / 10"]
    zero_divisor_guard [where P = 1000 and annual_rate_pct = "- 2400" and years = 1
        and net_income = 8500000 and expenses = 3000000 and dsr = "6 / 10"]
  by (simp add: Let_def)

section \<open>Facts about the snapshot\<close>

lemma evaluate_fields:
  "\<exists>s. evaluate b p = Inr s \<and>
       need_loan s = max 0 (harga b - dp b) \<and>
       ltv s = (if harga b > 0 then need_loan s / harga b else 0) \<and>
       monthly_payment (need_loan s) (bunga b) (tenor b) = Inr (pay_est s) \<and>
       max_principal_from_dsr (gaji_bersih b) (pengeluaran b) (max_dsr p) (bunga b) (tenor b) =
         Inr (max_principal_dsr s) \<and>
       dsr_used s = (if gaji_bersih b - pengeluaran b > 0
                     then pay_est s / max 1 (gaji_bersih b - pengeluaran b) else 0) \<and>
       dsr_flag s = (if gaji_bersih b - pengeluaran b > 0
                     then dsr_used s \<le> max_dsr p else False) \<and>
       ltv_flag s = (if harga b > 0 then ltv s \<le> max_ltv p else True)"
proof -
  obtain v where 1: "monthly_payment (max 0 (harga b - dp b)) (bunga b) (tenor b) = Inr v"
    using monthly_payment_returns by blast
  obtain w where 2: "max_principal_from_dsr (gaji_bersih b) (pengeluaran b) (max_dsr p)
      (bunga b) (tenor b) = Inr w"
    using max_principal_returns by blast
  have 3: "max 1 (gaji_bersih b - pengeluaran b) \<noteq> 0"
    by (simp add: max_def)
  show ?thesis
    by (simp add: evaluate_def Let_def 1 2 3 py_bind_def py_truediv_def)
qed

text \<open>
  C2. The snapshot never raises: for every profile and every pair of thresholds
  (well-formed or not, so also for the all-zero profile and for a down payment above
  the price) \<open>evaluate\<close> returns a result. In it \<open>need_loan\<close> is
  \<open>max(0, harga - dp)\<close>, which is not negative, and is at most the price when price and
  down payment are not negative. The edge cases degrade to zeros and to the default
  flags: a down payment that covers the price gives loan, ratio, payment and used DSR
  \<open>0\<close>; a price that is not positive gives ratio \<open>0\<close> and an LTV flag that is true; a
  disposable income that is not positive gives used DSR \<open>0\<close> and a DSR flag that is
  false; a term that is not positive gives payment and used DSR \<open>0\<close>.
\<close>

theorem evaluate_never_raises:
  "\<exists>s. evaluate b p = Inr s \<and>
       need_loan s = max 0 (harga b - dp b) \<and>
       0 \<le> need_loan s \<and>
       (0 \<le> harga b \<and> 0 \<le> dp b \<longrightarrow> need_loan s \<le> harga b) \<and>
       (harga b \<le> dp b \<longrightarrow> need_loan s = 0 \<and> ltv s = 0 \<and> pay_est s = 0 \<and> dsr_used s = 0) \<and>
       (harga b \<le> 0 \<longrightarrow> ltv s = 0 \<and> ltv_flag s) \<and>
       (gaji_bersih b - pengeluaran b \<le> 0 \<longrightarrow> dsr_used s = 0 \<and> \<not> dsr_flag s) \<and>
       (tenor b \<le> 0 \<longrightarrow> pay_est s = 0 \<and> dsr_used s = 0)"
proof -
  obtain s where e: "evaluate b p = Inr s"
    and n: "need_loan s = max 0 (harga b - dp b)"
    and l: "ltv s = (if harga b > 0 then need_loan s / harga b else 0)"
    and m: "monthly_payment (need_loan s) (bunga b) (tenor b) = Inr (pay_est s)"
    and u: "dsr_used s = (if gaji_bersih b - pengeluaran b > 0
                     then pay_est s / max 1 (gaji_bersih b - pengeluaran b) else 0)"
    and f: "dsr_flag s = (if gaji_bersih b - pengeluaran b > 0
                     then dsr_used s \<le> max_dsr p else False)"
    and g: "ltv_flag s = (if harga b > 0 then ltv s \<le> max_ltv p else True)"
    using evaluate_fields [of b p] by blast
  have z: "pay_est s = 0" if "need_loan s \<le> 0 \<or> tenor b \<le> 0"
    using m monthly_payment_zero [OF that, of "bunga b"] by simp
  have 1: "0 \<le> need_loan s" using n by simp
  have 2: "need_loan s \<le> harga b" if "0 \<le> harga b \<and> 0 \<le> dp b"
    using n that by simp
  have 3: "need_loan s = 0 \<and> ltv s = 0 \<and> pay_est s = 0 \<and> dsr_used s = 0" if "harga b \<le> dp b"
  proof -
    have "need_loan s = 0" using n that by simp
    then show ?thesis using l u z by simp
  qed
  have 4: "ltv s = 0 \<and> ltv_flag s" if "harga b \<le> 0"
    using l g that by simp
  have 5: "dsr_used s = 0 \<and> \<not> dsr_flag s" if "gaji_bersih b - pengeluaran b \<le> 0"
    using u f that by simp
  have 6: "pay_est s = 0 \<and> dsr_used s = 0" if "tenor b \<le> 0"
    using z u that by simp
  show ?thesis
    using e n 1 2 3 4 5 6 by blast
qed

theorem evaluate_never_raises_witness:
  "evaluate \<lparr>gaji_bersih = 0, pengeluaran = 0, harga = 0, dp = 0, tenor = 0, bunga = 0\<rparr>
            \<lparr>max_dsr = 0, max_ltv = 0\<rparr> =
     Inr \<lparr>need_loan = 0, ltv = 0, pay_est = 0, max_principal_dsr = 0, dsr_used = 0,
          dsr_flag = False, ltv_flag = True\<rparr> \<and>
   evaluate \<lparr>gaji_bersih = 8500000, pengeluaran = 3000000, harga = 100, dp = 150, tenor = 1, bunga = 0\<rparr>
            \<lparr>max_dsr = 6 / 10, max_ltv = 95 / 100\<rparr> =
     Inr \<lparr>need_loan = 0, ltv = 0, pay_est = 0, max_principal_dsr = 39600000, dsr_used = 0,
          dsr_flag = True, ltv_flag = True\<rparr>"
  using evaluate_never_raises
      [of "\<lparr>gaji_bersih = 0, pengeluaran = 0, harga = 0, dp = 0, tenor = 0, bunga = 0\<rparr>"
          "\<lparr>max_dsr = 0, max_ltv = 0\<rparr>"]
    evaluate_never_raises
      [of "\<lparr>gaji_bersih = 8500000, pengeluaran = 3000000, harga = 100, dp = 150, tenor = 1, bunga = 0\<rparr>"
          "\<lparr>max_dsr = 6 / 10, max_ltv = 95 / 100\<rparr>"]
  by (simp add: evaluate_def monthly_payment_def max_principal_from_dsr_def py_bind_def
      py_truediv_def)

text \<open>
  C6. When the disposable income \<open>gaji_bersih - pengeluaran\<close> is not positive,
  \<open>dsr_used\<close> is \<open>0\<close> and \<open>dsr_flag\<close> is false, whatever the other inputs; when it is
  positive, \<open>dsr_used\<close> is the estimated payment divided by \<open>max(1, disposable)\<close> and
  \<open>dsr_flag\<close> is \<open>dsr_used \<le> max_dsr\<close>. The estimated payment is what
  \<open>monthly_payment\<close> returns for the loan, the rate and the term.
\<close>

theorem evaluate_dsr:
  "\<exists>s. evaluate b p = Inr s \<and>
       monthly_payment (need_loan s) (bunga b) (tenor b) = Inr (pay_est s) \<and>
       (gaji_bersih b - pengeluaran b \<le> 0 \<longrightarrow> dsr_used s = 0 \<and> dsr_flag s = False) \<and>
       (gaji_bersih b - pengeluaran b > 0 \<longrightarrow>
          dsr_used s = pay_est s / max 1 (gaji_bersih b - pengeluaran b) \<and>
          dsr_flag s = (dsr_used s \<le> max_dsr p))"
proof -
  obtain s where e: "evaluate b p = Inr s"
    and m: "monthly_payment (need_loan s) (bunga b) (tenor b) = Inr (pay_est s)"
    and u: "dsr_used s = (if gaji_bersih b - pengeluaran b > 0
                     then pay_est s / max 1 (gaji_bersih b - pengeluaran b) else 0)"
    and f: "dsr_flag s = (if gaji_bersih b - pengeluaran b > 0
                     then dsr_used s \<le> max_dsr p else False)"
    using evaluate_fields [of b p] by blast
  have 1: "dsr_used s = 0 \<and> dsr_flag s = False" if "gaji_bersih b - pengeluaran b \<le> 0"
    using u f that by simp
  have 2: "dsr_used s = pay_est s / max 1 (gaji_bersih b - pengeluaran b) \<and>
          dsr_flag s = (dsr_used s \<le> max_dsr p)" if "gaji_bersih b - pengeluaran b > 0"
    using u f that by simp
  show ?thesis using e m 1 2 by blast
qed

theorem evaluate_dsr_witness:
  "evaluate \<lparr>gaji_bersih = 3000000, pengeluaran = 3000000, harga = 1200, dp = 0, tenor = 1, bunga = 0\<rparr>
            \<lparr>max_dsr = 6 / 10, max_ltv = 95 / 100\<rparr> =
     Inr \<lparr>need_loan = 1200, ltv = 1, pay_est = 100, max_principal_dsr = 0, dsr_used = 0,
          dsr_flag = False, ltv_flag = False\<rparr> \<and>
   evaluate \<lparr>gaji_bersih = 3000200, pengeluaran = 3000000, harga = 1200, dp = 0, tenor = 1, bunga = 0\<rparr>
            \<lparr>max_dsr = 6 / 10, max_ltv = 95 / 100\<rparr> =
     Inr \<lparr>need_loan = 1200, ltv = 1, pay_est = 100, max_principal_dsr = 1440, dsr_used = 1 / 2,
          dsr_flag = True, ltv_flag = False\<rparr>"
  using evaluate_dsr
      [of "\<lparr>gaji_bersih = 3000000, pengeluaran = 3000000, harga = 1200, dp = 0, tenor = 1, bunga = 0\<rparr>"
          "\<lparr>max_dsr = 6 / 10, max_ltv = 95 / 100\<rparr>"]
    evaluate_dsr
      [of "\<lparr>gaji_bersih = 3000200, pengeluaran = 3000000, harga = 1200, dp = 0, tenor = 1, bunga = 0\<rparr>"
          "\<lparr>max_dsr = 6 / 10, max_ltv = 95 / 100\<rparr>"]
  by (simp add: evaluate_def monthly_payment_def max_principal_from_dsr_def py_bind_def
      py_truediv_def)

text \<open>
  C7. When the price is \<open>0\<close>, \<open>ltv\<close> is \<open>0\<close> and \<open>ltv_flag\<close> is true, whatever the other
  inputs; when the price is positive, \<open>ltv\<close> is \<open>need_loan / harga\<close> and \<open>ltv_flag\<close> is
  \<open>ltv \<le> max_ltv\<close>.
\<close>

theorem evaluate_ltv:
  "\<exists>s. evaluate b p = Inr s \<and>
       need_loan s = max 0 (harga b - dp b) \<and>
       (harga b = 0 \<longrightarrow> ltv s = 0 \<and> ltv_flag s = True) \<and>
       (harga b > 0 \<longrightarrow>
          ltv s = need_loan s / harga b \<and>
          ltv_flag s = (ltv s \<le> max_ltv p))"
proof -
  obtain s where e: "evaluate b p = Inr s"
    and n: "need_loan s = max 0 (harga b - dp b)"
    and l: "ltv s = (if harga b > 0 then need_loan s / harga b else 0)"
    and g: "ltv_flag s = (if harga b > 0 then ltv s \<le> max_ltv p else True)"
    using evaluate_fields [of b p] by blast
  have 1: "ltv s = 0 \<and> ltv_flag s = True" if "harga b = 0"
    using l g that by simp
  have 2: "ltv s = need_loan s / harga b \<and> ltv_flag s = (ltv s \<le> max_ltv p)" if "harga b > 0"
    using l g that by simp
  show ?thesis using e n 1 2 by blast
qed

theorem evaluate_ltv_witness:
  "evaluate \<lparr>gaji_bersih = 3000200, pengeluaran = 3000000, harga = 0, dp = 500, tenor = 1, bunga = 0\<rparr>
            \<lparr>max_dsr = 6 / 10, max_ltv = 95 / 100\<rparr> =
     Inr \<lparr>need_loan = 0, ltv = 0, pay_est = 0, max_principal_dsr = 1440, dsr_used = 0,
          dsr_flag = True, ltv_flag = True\<rparr> \<and>
   evaluate \<lparr>gaji_bersih = 3000200, pengeluaran = 3000000, harga = 1200, dp = 240, tenor = 1, bunga = 0\<rparr>
            \<lparr>max_dsr = 6 / 10, max_ltv = 95 / 100\<rparr> =
     Inr \<lparr>need_loan = 960, ltv = 4 / 5, pay_est = 80, max_principal_dsr = 1440, dsr_used = 2 / 5,
          dsr_flag = True, ltv_flag = True\<rparr>"
  using evaluate_ltv
      [of "\<lparr>gaji_bersih = 3000200, pengeluaran = 3000000, harga = 0, dp = 500, tenor = 1, bunga = 0\<rparr>"
          "\<lparr>max_dsr = 6 / 10, max_ltv = 95 / 100\<rparr>"]
    evaluate_ltv
      [of "\<lparr>gaji_bersih = 3000200, pengeluaran = 3000000, harga = 1200, dp = 240, tenor = 1, bunga = 0\<rparr>"
          "\<lparr>max_dsr = 6 / 10, max_ltv = 95 / 100\<rparr>"]
  by (simp add: evaluate_def monthly_payment_def max_principal_from_dsr_def py_bind_def
      py_truediv_def)

section \<open>Facts about the conversions and the parsers\<close>

lemma is_digit_cases:
  "is_digit c \<longleftrightarrow> c = CHR ''0'' \<or> c = CHR ''1'' \<or> c = CHR ''2'' \<or> c = CHR ''3'' \<or> c = CHR ''4'' \<or>
     c = CHR ''5'' \<or> c = CHR ''6'' \<or> c = CHR ''7'' \<or> c = CHR ''8'' \<or> c = CHR ''9''"
  by (simp add: is_digit_def)

lemma is_digit_not_special:
  assumes "is_digit c"
  shows "c \<noteq> CHR ''_''" "c \<noteq> CHR ''-''" "c \<noteq> CHR ''+''" "c \<noteq> CHR ''.''" "c \<noteq> CHR '',''"
    "c \<noteq> CHR '' ''" "c \<noteq> CHR ''e''" "c \<noteq> CHR ''E''"
  using assms unfolding is_digit_cases by auto

lemma is_digit_not_space:
  assumes "is_digit c"
  shows "\<not> str_isspace c" "\<not> num_isspace c"
  using assms unfolding is_digit_cases str_isspace_def num_isspace_def by auto



lemma num_strip_id:
  assumes "\<forall>c \<in> set s. \<not> num_isspace c"
  shows "num_strip s = s"
proof -
  have 1: "dropWhile num_isspace s = s"
    using assms by (cases s) auto
  have "\<forall>c \<in> set (rev s). \<not> num_isspace c" using assms by simp
  then have 2: "dropWhile num_isspace (rev s) = rev s"
    by (cases "rev s") auto
  show ?thesis by (simp add: num_strip_def 1 2)
qed

lemma replace_remove: "replace c [] s = filter (\<lambda>x. x \<noteq> c) s"
  by (induction s) (auto simp add: replace_def)

lemma replace_char: "replace c [d] s = map (\<lambda>x. if x = c then d else x) s"
  by (induction s) (auto simp add: replace_def)






lemma underscores_ok_none:
  assumes "CHR ''_'' \<notin> set s" "prev \<noteq> CHR ''_''"
  shows "underscores_ok prev s"
  using assms by (induction s arbitrary: prev) auto






lemma lower_fixed:
  "lower (CHR ''.'') = CHR ''.''" "is_digit c \<Longrightarrow> lower c = c"
proof -
  show "lower (CHR ''.'') = CHR ''.''" by (simp add: lower_def)
  show "lower c = c" if "is_digit c"
    using that unfolding is_digit_cases by (elim disjE) (simp_all add: lower_def)
qed

lemma not_special_word:
  assumes "\<forall>c \<in> set w. is_digit c \<or> c = CHR ''.''" 
  shows "map lower w \<noteq> ''inf''" "map lower w \<noteq> ''infinity''" "map lower w \<noteq> ''nan''"
proof -
  have "map lower w = w"
    using assms by (induction w) (auto simp add: lower_fixed)
  moreover have "\<not> (is_digit (CHR ''n'') \<or> CHR ''n'' = CHR ''.'')"
    by (simp add: is_digit_def)
  ultimately show "map lower w \<noteq> ''inf''" "map lower w \<noteq> ''infinity''" "map lower w \<noteq> ''nan''"
    using assms by auto
qed

lemma py_float_plain:
  assumes "\<forall>c \<in> set w. is_digit c \<or> c = CHR ''.''"
  shows "py_float w = (case float_number w of None \<Rightarrow> Inl ValueError | Some x \<Rightarrow> Inr (Finite x))"
proof -
  have c: "c \<noteq> CHR ''_'' \<and> c \<noteq> CHR ''-'' \<and> c \<noteq> CHR ''+'' \<and> \<not> num_isspace c" if "c \<in> set w" for c
  proof -
    have "is_digit c \<or> c = CHR ''.''" using assms that by blast
    then show ?thesis
    proof
      assume "is_digit c"
      then show ?thesis by (simp add: is_digit_not_special is_digit_not_space)
    qed (simp add: num_isspace_def)
  qed
  have 1: "num_strip w = w" using c by (intro num_strip_id) blast
  have 2: "underscores_ok (CHR 0x00) w" using c by (intro underscores_ok_none) auto
  have 3: "filter (\<lambda>c. c \<noteq> CHR ''_'') w = w" using c by (simp add: filter_id_conv)
  have 4: "split_sign w = (False, w)"
    using c by (cases w) (auto simp add: split_sign_def)
  show ?thesis
    by (simp add: py_float_def 1 2 3 4 not_special_word [OF assms] split: option.split)
qed





lemma parse_decimal_general:
  "parse_decimal (Some s) =
     (let t = replace (CHR '' '') [] (strip s)
      in except_Exception
           (py_float (if count_list t (CHR '','') = 1 \<and> count_list t (CHR ''.'') = 0
                      then replace (CHR '','') ''.'' t
                      else replace (CHR '','') [] t))
           (Finite 0))"
proof (cases "strip s = []")
  case True
  have "py_float [] = Inl ValueError"
    by (simp add: py_float_def num_strip_def split_sign_def float_number_def)
  then show ?thesis
    by (simp add: parse_decimal_def True replace_def except_Exception_def)
next
  case False
  then show ?thesis
    by (simp add: parse_decimal_def Let_def)
qed












lemmas eval_defs = parse_decimal_def parse_money_def strip_def str_isspace_def replace_def
  py_float_def py_int_def num_strip_def num_isspace_def split_sign_def lower_def float_number_def
  int_literal_def is_digit_def digits_val_def digit_val_def except_Exception_def py_bind_def

lemma parse_money_returns: "\<exists>v. parse_money t = Inr v"
  by (cases t) (auto simp add: parse_money_def Let_def except_Exception_def split: sum.splits)

lemma parse_decimal_returns: "\<exists>v. parse_decimal t = Inr v"
  by (cases t) (auto simp add: parse_decimal_def Let_def except_Exception_def split: sum.splits)

lemma parse_money_examples:
  "parse_money (Some ''5,000,000'') = Inr (Finite 5000000)"
  "parse_money (Some ''5.000.000'') = Inr (Finite 5000000)"
  "parse_money (Some ''  1 234 '') = Inr (Finite 1234)"
  "parse_money (Some ''12abc'') = Inr (Finite 0)"
  "parse_money (Some '''') = Inr (Finite 0)"
  "parse_money None = Inr (Finite 0)"
  by (simp_all add: eval_defs)


lemma set_strip: "set (strip s) \<subseteq> set s"
proof -
  have "set (dropWhile str_isspace (rev (dropWhile str_isspace s))) \<subseteq> set (rev (dropWhile str_isspace s))"
    by (auto dest: set_dropWhileD)
  also have "\<dots> \<subseteq> set s" by (auto dest: set_dropWhileD)
  finally show ?thesis by (simp add: strip_def)
qed

lemma parse_money_only_separators:
  assumes "\<forall>c \<in> set s. c = CHR '','' \<or> c = CHR ''.'' \<or> c = CHR '' ''"
  shows "parse_money (Some s) = Inr (Finite 0)"
proof -
  have "\<forall>c \<in> set (strip s). c = CHR '','' \<or> c = CHR ''.'' \<or> c = CHR '' ''"
    using assms set_strip by blast
  then have "replace (CHR ''.'') [] (replace (CHR '','') [] (replace (CHR '' '') [] (strip s))) = []"
    by (auto simp add: replace_remove filter_empty_conv)
  then show ?thesis
    by (simp add: parse_money_def Let_def)
qed

lemma float_number_points:
  assumes "\<forall>c \<in> set w. c = CHR ''.''"
  shows "float_number w = None"
proof (cases w)
  case Nil
  then show ?thesis by (simp add: float_number_def)
next
  case (Cons c cs)
  then have c: "c = CHR ''.''" and cs: "\<forall>x \<in> set cs. x = CHR ''.''" using assms by auto
  have p: "\<not> is_digit (CHR ''.'')" by (simp add: is_digit_def)
  have "takeWhile is_digit cs = []"
    using cs p by (cases cs) auto
  then show ?thesis
    unfolding Cons c using p by (simp add: float_number_def)
qed

lemma parse_decimal_only_separators:
  assumes "\<forall>c \<in> set s. c = CHR '','' \<or> c = CHR ''.'' \<or> c = CHR '' ''"
  shows "parse_decimal (Some s) = Inr (Finite 0)"
proof -
  define t where "t = replace (CHR '' '') [] (strip s)"
  have "\<forall>c \<in> set (strip s). c = CHR '','' \<or> c = CHR ''.'' \<or> c = CHR '' ''"
    using assms set_strip by blast
  then have t: "\<forall>c \<in> set t. c = CHR '','' \<or> c = CHR ''.''"
    by (auto simp add: t_def replace_remove)
  define w where "w = (if count_list t (CHR '','') = 1 \<and> count_list t (CHR ''.'') = 0
                      then replace (CHR '','') ''.'' t
                      else replace (CHR '','') [] t)"
  have w: "\<forall>c \<in> set w. c = CHR ''.''"
    using t by (auto simp add: w_def replace_remove replace_char)
  then have "\<forall>c \<in> set w. is_digit c \<or> c = CHR ''.''" by blast
  then have "py_float w = Inl ValueError"
    by (simp add: py_float_plain float_number_points [OF w])
  then show ?thesis
    unfolding parse_decimal_general Let_def t_def [symmetric] w_def [symmetric]
    by (simp add: except_Exception_def)
qed



text \<open>
  C9. The specification says that every text that is not a number is parsed as \<open>0\<close>.
  \<open>parse_decimal\<close> leaves the decision to \<open>float\<close>, which accepts the words \<open>nan\<close>,
  \<open>inf\<close> and \<open>infinity\<close>: for them the result is not \<open>0\<close> but the value that is not a
  number, or an infinity. \<open>parse_money\<close>, which goes through \<open>int\<close>, returns \<open>0\<close> for
  the same text.
\<close>

theorem parse_decimal_non_numeric:
  "parse_decimal (Some ''nan'') = Inr NaN \<and>
   parse_decimal (Some ''inf'') = Inr PosInf \<and>
   parse_decimal (Some ''-Infinity'') = Inr NegInf \<and>
   parse_money (Some ''nan'') = Inr (Finite 0)"
  by (simp add: eval_defs)



end
